theory Spec2Isabelle
  imports Main "HOL-Library.AList"
begin

section \<open>Python values, dictionaries and exceptions\<close>

text \<open>
  The three Lambda functions of the repository receive an Amazon Lex event and answer with
  a dialog action. A slot value is a string or \<open>None\<close>; a dictionary is an association
  list in insertion order, read with \<^const>\<open>map_of\<close> and written with
  \<^const>\<open>AList.update\<close> (an assignment to an existing key keeps its place, a new key
  goes last, as in Python). Dictionary keys are Python values too.
\<close>

datatype pyval = PyNone | PyStr string

datatype error =
    Exception string
  | KeyError string
  | IndexError
  | SyntaxError
  | ClientError string

type_synonym slots = "(pyval \<times> pyval) list"

type_synonym attributes = "(string \<times> string) list"

record message =
  contentType :: string
  content :: string

datatype dialog_action =
    ElicitSlot string slots pyval "message option"
  | Delegate slots
  | Close string message

record response =
  response_sessionAttributes :: "attributes option"
  dialogAction :: dialog_action

text \<open>
  The fields of the event that the handlers read: \<open>event['bot']['name']\<close>,
  \<open>event['currentIntent']['name']\<close>, \<open>event['currentIntent']['slots']\<close>,
  \<open>event['sessionAttributes']\<close> (a dictionary or \<open>None\<close>) and
  \<open>event['invocationSource']\<close>.
\<close>

record event =
  bot_name :: string
  currentIntent_name :: string
  currentIntent_slots :: slots
  sessionAttributes :: "attributes option"
  invocationSource :: string

section \<open>The DynamoDB resource\<close>

text \<open>
  \<open>dynamodb_resource\<close> is an external service. It is a parameter of the model: a function
  from a table name and a key condition to the response of \<open>Table(name).query(...)\<close> or
  the exception the call raises. A response carries \<open>Count\<close> and \<open>Items\<close>; an item is a
  dictionary from attribute names to the text that \<open>str.format\<close> renders for the
  attribute. Every function that reaches the store also returns the list of queries it
  made, in order, so that which lookups a turn performs is part of its result.
\<close>

datatype key_condition = Key_eq string pyval | And key_condition key_condition

record query_response =
  Count :: int
  Items :: "attributes list"

type_synonym dynamodb = "string \<Rightarrow> key_condition \<Rightarrow> error + query_response"

datatype call = Query string key_condition

definition query :: "dynamodb \<Rightarrow> string \<Rightarrow> key_condition \<Rightarrow> (error + query_response) \<times> call list" where
  "query dynamodb_resource table cond = (dynamodb_resource table cond, [Query table cond])"

definition subscript :: "attributes \<Rightarrow> string \<Rightarrow> error + string" where
  "subscript d k = (case map_of d k of None \<Rightarrow> Inl (KeyError k) | Some v \<Rightarrow> Inr v)"

text \<open>
  The pound sign of the two format strings, U+00A3, as the one character it is in a
  Python string.
\<close>

definition pound :: string where
  "pound = [CHR 0xA3]"

section \<open>ACMEBankBotAccountOverview.py and ACMEBankBotTransactionList.py\<close>

text \<open>
  \<open>elicit_slot\<close>, \<open>defer_next_action_to_chatbot\<close> and \<open>validate_customer_identifier\<close>
  are the same, line for line, in the two files. The \<open>dialogAction\<close> of this
  \<open>elicit_slot\<close> has no \<open>message\<close> key.
\<close>

definition elicit_slot :: "pyval \<Rightarrow> attributes option \<Rightarrow> string \<Rightarrow> slots \<Rightarrow> response" where
  "elicit_slot slot_to_elicit session_attributes intent_name slots' =
     \<lparr>response_sessionAttributes = session_attributes,
      dialogAction = ElicitSlot intent_name slots' slot_to_elicit None\<rparr>"

definition defer_next_action_to_chatbot :: "attributes option \<Rightarrow> slots \<Rightarrow> response" where
  "defer_next_action_to_chatbot session_attributes slots' =
     \<lparr>response_sessionAttributes = session_attributes, dialogAction = Delegate slots'\<rparr>"

definition validate_customer_identifier :: "dynamodb \<Rightarrow> pyval \<Rightarrow> (error + bool) \<times> call list" where
  "validate_customer_identifier dynamodb_resource customer_identifier =
     (case query dynamodb_resource ''ACMEBankCustomer''
             (Key_eq ''CustomerIdentifier'' customer_identifier) of
        (Inl e, cs) \<Rightarrow> (Inl e, cs)
      | (Inr dynamodb_response, cs) \<Rightarrow>
          if Count dynamodb_response = 0 then (Inr False, cs) else (Inr True, cs))"

definition validate_account_identifier :: "dynamodb \<Rightarrow> pyval \<Rightarrow> pyval \<Rightarrow> (error + bool) \<times> call list" where
  "validate_account_identifier dynamodb_resource customer_identifier account_identifier =
     (case query dynamodb_resource ''ACMEBankAccount''
             (And (Key_eq ''CustomerIdentifier'' customer_identifier)
                  (Key_eq ''AccountIdentifier'' account_identifier)) of
        (Inl e, cs) \<Rightarrow> (Inl e, cs)
      | (Inr dynamodb_response, cs) \<Rightarrow>
          if Count dynamodb_response = 0 then (Inr False, cs) else (Inr True, cs))"

definition closing_sentence :: string where
  "closing_sentence = ''. Is there anything else I can help you with?''"

text \<open>
  The body of the loop of \<open>get_account_overview\<close> up to \<open>account_description\<close>: the two
  subscripts are evaluated left to right and a missing attribute raises \<open>KeyError\<close>.
\<close>

definition account_description :: "attributes \<Rightarrow> error + string" where
  "account_description account_object =
     (case subscript account_object ''AccountIdentifier'' of
        Inl e \<Rightarrow> Inl e
      | Inr account_identifier \<Rightarrow>
          (case subscript account_object ''AccountBalance'' of
             Inl e \<Rightarrow> Inl e
           | Inr account_balance \<Rightarrow>
               Inr (''The balance in account number '' @ account_identifier @ '' is ''
                    @ pound @ account_balance)))"

text \<open>
  \<open>for i in range(num_accounts)\<close>, from index \<open>i\<close> with the string built so far.
  \<open>account_array[i]\<close> raises \<open>IndexError\<close> past the end of the list.
\<close>

function account_loop :: "attributes list \<Rightarrow> int \<Rightarrow> nat \<Rightarrow> string \<Rightarrow> error + string" where
  "account_loop account_array num_accounts i response_string =
     (if int i < num_accounts then
        (if i < length account_array then
           (case account_description (account_array ! i) of
              Inl e \<Rightarrow> Inl e
            | Inr description \<Rightarrow>
                account_loop account_array num_accounts (Suc i)
                  (if int i = num_accounts - 1
                   then (response_string @ description) @ closing_sentence
                   else (response_string @ description) @ '', ''))
         else Inl IndexError)
      else Inr response_string)"
  by pat_completeness auto
termination
  by (relation "measure (\<lambda>(a, n, i, r). nat (n - int i))") auto

definition get_account_overview :: "dynamodb \<Rightarrow> pyval \<Rightarrow> (error + string) \<times> call list" where
  "get_account_overview dynamodb_resource customer_identifier =
     (case query dynamodb_resource ''ACMEBankAccount''
             (Key_eq ''CustomerIdentifier'' customer_identifier) of
        (Inl e, cs) \<Rightarrow> (Inl e, cs)
      | (Inr dynamodb_response, cs) \<Rightarrow>
          (let num_accounts = Count dynamodb_response in
           if num_accounts = 0
           then (Inr ''I could not find any accounts for you on our systems. Is there anything else I can help you with?'', cs)
           else (account_loop (Items dynamodb_response) num_accounts 0 [], cs)))"

definition close_fulfilled :: "attributes option \<Rightarrow> string \<Rightarrow> response" where
  "close_fulfilled session_attributes text' =
     \<lparr>response_sessionAttributes = session_attributes,
      dialogAction = Close ''Fulfilled'' \<lparr>contentType = ''PlainText'', content = text'\<rparr>\<rparr>"

text \<open>
  The block under \<open>if invocation_source == 'DialogCodeHook':\<close> of the account overview
  handler: \<open>Some\<close> response where the block returns, \<open>None\<close> where control falls
  through to the code after it. The assignment \<open>intent_slots['CustomerIdentifier'] = None\<close>
  changes the dictionary that the response then carries.
\<close>

definition dialog_code_hook_AO ::
  "dynamodb \<Rightarrow> attributes option \<Rightarrow> string \<Rightarrow> slots \<Rightarrow> pyval \<Rightarrow> (error + response option) \<times> call list" where
  "dialog_code_hook_AO dynamodb_resource session_attributes intent_name intent_slots customer_identifier =
     (if customer_identifier = PyNone
      then (Inr (Some (elicit_slot (PyStr ''CustomerIdentifier'') session_attributes intent_name intent_slots)), [])
      else (case validate_customer_identifier dynamodb_resource customer_identifier of
              (Inl e, cs) \<Rightarrow> (Inl e, cs)
            | (Inr valid, cs) \<Rightarrow>
                if \<not> valid
                then (Inr (Some (defer_next_action_to_chatbot session_attributes
                         (AList.update (PyStr ''CustomerIdentifier'') PyNone intent_slots))), cs)
                else (Inr None, cs)))"

definition lambda_handler_AO :: "dynamodb \<Rightarrow> event \<Rightarrow> (error + response) \<times> call list" where
  "lambda_handler_AO dynamodb_resource event =
     (let bot_name' = bot_name event;
          intent_name = currentIntent_name event
      in if bot_name' \<noteq> ''ACMEBankBot''
         then (Inl (Exception ''This function can only be used with the ACMEBankBot''), [])
         else if intent_name \<noteq> ''AccountOverview''
         then (Inl (Exception ''This function can only be used with the AccountOverview intent''), [])
         else
           (let session_attributes = sessionAttributes event;
                intent_slots = currentIntent_slots event
            in case map_of intent_slots (PyStr ''CustomerIdentifier'') of
                 None \<Rightarrow> (Inl (KeyError ''CustomerIdentifier''), [])
               | Some customer_identifier \<Rightarrow>
                   (case (if invocationSource event = ''DialogCodeHook''
                          then dialog_code_hook_AO dynamodb_resource session_attributes
                                 intent_name intent_slots customer_identifier
                          else (Inr None, [])) of
                      (Inl e, cs) \<Rightarrow> (Inl e, cs)
                    | (Inr (Some early), cs) \<Rightarrow> (Inr early, cs)
                    | (Inr None, cs) \<Rightarrow>
                        (case get_account_overview dynamodb_resource customer_identifier of
                           (Inl e, cs') \<Rightarrow> (Inl e, cs @ cs')
                         | (Inr account_overview, cs') \<Rightarrow>
                             (Inr (close_fulfilled session_attributes account_overview), cs @ cs')))))"

subsection \<open>The transaction list\<close>

definition transaction_type_description :: "string \<Rightarrow> string" where
  "transaction_type_description transaction_type_code =
     (if transaction_type_code = ''CW'' then ''cash withdrawal''
      else if transaction_type_code = ''TFR'' then ''outbound transfer''
      else ''credit'')"

text \<open>
  The body of the loop of \<open>get_transaction_summary\<close> up to \<open>transaction_description\<close>:
  the four subscripts in the order of the source.
\<close>

definition transaction_description :: "attributes \<Rightarrow> error + string" where
  "transaction_description transaction_object =
     (case subscript transaction_object ''TransactionIdentifier'' of
        Inl e \<Rightarrow> Inl e
      | Inr transaction_number \<Rightarrow>
     (case subscript transaction_object ''Amount'' of
        Inl e \<Rightarrow> Inl e
      | Inr transaction_amount \<Rightarrow>
     (case subscript transaction_object ''Date'' of
        Inl e \<Rightarrow> Inl e
      | Inr transaction_date \<Rightarrow>
     (case subscript transaction_object ''Type'' of
        Inl e \<Rightarrow> Inl e
      | Inr transaction_type_code \<Rightarrow>
          Inr (''Transaction #'' @ transaction_number @ '': ''
               @ transaction_type_description transaction_type_code
               @ '' of '' @ pound @ transaction_amount @ '' on '' @ transaction_date)))))"

function transaction_loop :: "attributes list \<Rightarrow> int \<Rightarrow> nat \<Rightarrow> string \<Rightarrow> error + string" where
  "transaction_loop transaction_array num_transactions i response_string =
     (if int i < num_transactions then
        (if i < length transaction_array then
           (case transaction_description (transaction_array ! i) of
              Inl e \<Rightarrow> Inl e
            | Inr description \<Rightarrow>
                transaction_loop transaction_array num_transactions (Suc i)
                  (if int i = num_transactions - 1
                   then (response_string @ description) @ closing_sentence
                   else (response_string @ description) @ '', ''))
         else Inl IndexError)
      else Inr response_string)"
  by pat_completeness auto
termination
  by (relation "measure (\<lambda>(a, n, i, r). nat (n - int i))") auto

definition get_transaction_summary :: "dynamodb \<Rightarrow> pyval \<Rightarrow> (error + string) \<times> call list" where
  "get_transaction_summary dynamodb_resource account_identifier =
     (case query dynamodb_resource ''ACMEAccountTransaction''
             (Key_eq ''AccountIdentifier'' account_identifier) of
        (Inl e, cs) \<Rightarrow> (Inl e, cs)
      | (Inr dynamodb_response, cs) \<Rightarrow>
          (let num_transactions = Count dynamodb_response in
           if num_transactions = 0
           then (Inr ''I could not find any transactions for this account on our systems. Is there anything else I can help you with?'', cs)
           else (transaction_loop (Items dynamodb_response) num_transactions 0 [], cs)))"

text \<open>
  The block under \<open>if invocation_source == 'DialogCodeHook':\<close> of the transaction list
  handler, in the order of the source: the two presence checks, then the two validations.
\<close>

definition dialog_code_hook_TL ::
  "dynamodb \<Rightarrow> attributes option \<Rightarrow> string \<Rightarrow> slots \<Rightarrow> pyval \<Rightarrow> pyval \<Rightarrow> (error + response option) \<times> call list" where
  "dialog_code_hook_TL dynamodb_resource session_attributes intent_name intent_slots
       customer_identifier account_identifier =
     (if customer_identifier = PyNone
      then (Inr (Some (elicit_slot (PyStr ''CustomerIdentifier'') session_attributes intent_name intent_slots)), [])
      else if account_identifier = PyNone
      then (Inr (Some (elicit_slot (PyStr ''AccountIdentifier'') session_attributes intent_name intent_slots)), [])
      else (case validate_customer_identifier dynamodb_resource customer_identifier of
              (Inl e, cs) \<Rightarrow> (Inl e, cs)
            | (Inr valid, cs) \<Rightarrow>
                if \<not> valid
                then (Inr (Some (defer_next_action_to_chatbot session_attributes
                         (AList.update (PyStr ''CustomerIdentifier'') PyNone intent_slots))), cs)
                else (case validate_account_identifier dynamodb_resource
                             customer_identifier account_identifier of
                        (Inl e, cs') \<Rightarrow> (Inl e, cs @ cs')
                      | (Inr valid', cs') \<Rightarrow>
                          if \<not> valid'
                          then (Inr (Some (defer_next_action_to_chatbot session_attributes
                                   (AList.update (PyStr ''AccountIdentifier'') PyNone intent_slots))), cs @ cs')
                          else (Inr None, cs @ cs'))))"

definition lambda_handler_TL :: "dynamodb \<Rightarrow> event \<Rightarrow> (error + response) \<times> call list" where
  "lambda_handler_TL dynamodb_resource event =
     (let bot_name' = bot_name event;
          intent_name = currentIntent_name event
      in if bot_name' \<noteq> ''ACMEBankBot''
         then (Inl (Exception ''This function can only be used with the ACMEBankBot''), [])
         else if intent_name \<noteq> ''ViewTransactionList''
         then (Inl (Exception ''This function can only be used with the ViewTransactionList intent''), [])
         else
           (let session_attributes = sessionAttributes event;
                intent_slots = currentIntent_slots event
            in case map_of intent_slots (PyStr ''CustomerIdentifier'') of
                 None \<Rightarrow> (Inl (KeyError ''CustomerIdentifier''), [])
               | Some customer_identifier \<Rightarrow>
            (case map_of intent_slots (PyStr ''AccountIdentifier'') of
                 None \<Rightarrow> (Inl (KeyError ''AccountIdentifier''), [])
               | Some account_identifier \<Rightarrow>
                   (case (if invocationSource event = ''DialogCodeHook''
                          then dialog_code_hook_TL dynamodb_resource session_attributes
                                 intent_name intent_slots customer_identifier account_identifier
                          else (Inr None, [])) of
                      (Inl e, cs) \<Rightarrow> (Inl e, cs)
                    | (Inr (Some early), cs) \<Rightarrow> (Inr early, cs)
                    | (Inr None, cs) \<Rightarrow>
                        (case get_transaction_summary dynamodb_resource account_identifier of
                           (Inl e, cs') \<Rightarrow> (Inl e, cs @ cs')
                         | (Inr transaction_summary, cs') \<Rightarrow>
                             (Inr (close_fulfilled session_attributes transaction_summary), cs @ cs'))))))"

section \<open>AccountOverviewIntent\_ValidationFunction.py\<close>

text \<open>
  This module does not load. Its \<open>logger.debug(\<close> calls on lines 81 and 90 open two
  brackets and close one, so the brackets of the file are not all closed when the file
  ends. Python rejects such a file with \<open>SyntaxError\<close> when the module is imported,
  before any \<open>def\<close> is executed, and every invocation of the Lambda function fails
  with that error.

  The model holds the text of the file, line by line, and counts its brackets the way the
  tokenizer does: outside string literals and comments, an opening bracket adds one and a
  closing bracket takes one away.
\<close>

datatype scan_mode = Code | Single_quoted | Double_quoted

fun scan_line :: "scan_mode \<Rightarrow> int \<Rightarrow> string \<Rightarrow> int" where
  "scan_line m d [] = d"
| "scan_line Code d (c # cs) =
     (if c = CHR ''#'' then d
      else if c = CHR 0x27 then scan_line Single_quoted d cs
      else if c = CHR 0x22 then scan_line Double_quoted d cs
      else if c = CHR ''('' \<or> c = CHR ''['' \<or> c = CHR ''{'' then scan_line Code (d + 1) cs
      else if c = CHR '')'' \<or> c = CHR '']'' \<or> c = CHR ''}'' then scan_line Code (d - 1) cs
      else scan_line Code d cs)"
| "scan_line Single_quoted d (c # cs) =
     (if c = CHR 0x27 then scan_line Code d cs else scan_line Single_quoted d cs)"
| "scan_line Double_quoted d (c # cs) =
     (if c = CHR 0x22 then scan_line Code d cs else scan_line Double_quoted d cs)"

definition brackets_left_open :: "string list \<Rightarrow> int" where
  "brackets_left_open lines = foldl (scan_line Code) 0 lines"

definition source_VF :: "string list" where
  "source_VF =
     [''import json'',
      ''import boto3'',
      ''import logging'',
      ''import os'',
      ''import sys'',
      '''',
      ''logger = logging.getLogger()'',
      ''logger.setLevel(logging.DEBUG)'',
      '''',
      '''',
      ''def elicit_slot(session_attributes, intent_name, slots, slot_to_elicit, message):'',
      ''    return {'',
      ''        'sessionAttributes': session_attributes,'',
      ''        'dialogAction': {'',
      ''            'type': 'ElicitSlot','',
      ''            'intentName': intent_name,'',
      ''            'slots': slots,'',
      ''            'slotToElicit': slot_to_elicit,'',
      ''            'message': message'',
      ''        }'',
      ''    }'',
      '''',
      ''def delegate(session_attributes, slots):'',
      ''    return {'',
      ''        'sessionAttributes': session_attributes,'',
      ''        'dialogAction': {'',
      ''            'type': 'Delegate','',
      ''            'slots': slots'',
      ''        }'',
      ''    }'',
      '''',
      ''def build_validation_result(is_valid, violated_slot, message_content):'',
      ''    if message_content is None:'',
      ''        return {'',
      ''            '' @ [CHR 0x22] @ ''isValid'' @ [CHR 0x22] @ '': is_valid,'',
      ''            '' @ [CHR 0x22] @ ''violatedSlot'' @ [CHR 0x22] @ '': violated_slot,'',
      ''        }'',
      '''',
      ''    return {'',
      ''        'isValid': is_valid,'',
      ''        'violatedSlot': violated_slot,'',
      ''        'message': {'contentType': 'PlainText', 'content': message_content}'',
      ''    }'',
      '''',
      '''',
      ''def validate_customer_identifier(customer_identifier):'',
      ''   '',
      ''    if len(customer_identifier) == 0:'',
      ''        return build_validation_result(False, '',
      ''                                       'CustomerIdentifier','',
      ''                                       'The customer identifier you have provided is invalid. Please try again.')'',
      '''',
      ''    if customer_identifier != 'CUS01' and customer_identifier != 'CUS02':'',
      ''        return build_validation_result(False, '',
      ''                                       'CustomerIdentifier','',
      ''                                       'The customer identifier you have provided is invalid. Please try again.')'',
      '''',
      ''    return build_validation_result(True, None, None)'',
      '''',
      '''',
      ''# --- Main handler ---'',
      '''',
      ''def lambda_handler(event, context):'',
      ''    # name of the bot that is executing this function'',
      ''    bot_name = event['bot']['name']'',
      ''    logger.debug('event.bot.name={}'.format(bot_name))'',
      '''',
      ''    # name of the intent that has executed this function.'',
      ''    intent_name = event['currentIntent']['name']'',
      ''    logger.debug('intent.name={}'.format(intent_name))'',
      '''',
      ''    #ensure bot_name and intent_name have expected values'',
      ''    if bot_name != 'ACMEBankBot' and intent_name != 'AccountOverviewIntent':'',
      ''        raise Exception('Intent ' + intent_name + ' not supported.')'',
      ''    '',
      ''    # get slots'',
      ''    intent_slots = event['currentIntent']['slots']'',
      ''    customer_identifier = intent_slots['' @ [CHR 0x22] @ ''CustomerIdentifier'' @ [CHR 0x22] @ '']'',
      '''',
      ''    logger.debug('intent.slots={}'.format(intent_slots))'',
      ''    logger.debug('slot.customer_identifier={}'.format(customer_identifier)'',
      '''',
      ''    # get session attributes'',
      ''    # session attributes are not used in this code, but it is possible to read and'',
      ''    # modify values as needed.'',
      ''    session_attributes = event['sessionAttributes'] '',
      ''    if session_attributes is None:'',
      ''       session_attributes = {}'',
      '''',
      ''    logger.debug('sessionAttributes={}'.format(session_attributes)'',
      '''',
      ''    validation_result = validate_customer_identifier(customer_identifier)'',
      ''    if not validation_result['isValid']:'',
      ''        intent_slots[validation_result['violatedSlot']] = None'',
      ''        return elicit_slot(session_attributes,'',
      ''                            intent_name,'',
      ''                            intent_slots,'',
      ''                            validation_result['violatedSlot'],'',
      ''                            validation_result['message'])'',
      '''',
      '''',
      ''    return delegate(output_session_attributes, intent_slots)'']"

text \<open>Whether a text occurs in a line, for statements about what the file says where.\<close>

fun starts_with :: "string \<Rightarrow> string \<Rightarrow> bool" where
  "starts_with [] line = True"
| "starts_with (c # cs) [] = False"
| "starts_with (c # cs) (d # ds) = (c = d \<and> starts_with cs ds)"

fun occurs :: "string \<Rightarrow> string \<Rightarrow> bool" where
  "occurs w [] = starts_with w []"
| "occurs w (d # ds) = (starts_with w (d # ds) \<or> occurs w ds)"

text \<open>
  An invocation of the Lambda function: the module is imported, then its
  \<open>lambda_handler\<close> is called with the event. \<open>handler\<close> stands for the function that
  the \<open>def lambda_handler\<close> of line 63 would bind if the module loaded; the model says
  nothing about it.
\<close>

definition lambda_handler_VF :: "(event \<Rightarrow> error + response) \<Rightarrow> event \<Rightarrow> error + response" where
  "lambda_handler_VF handler event =
     (if brackets_left_open source_VF = 0 then handler event else Inl SyntaxError)"

section \<open>The texts and observations the properties speak of\<close>

text \<open>
  The summary texts as the specification words them: each record rendered as a sentence,
  the sentences joined with a separator, the closing sentence after the last one. These
  definitions follow the specification, not the source; the theorems below compare the
  loops of the source with them.
\<close>

fun join_with :: "string \<Rightarrow> string list \<Rightarrow> string" where
  "join_with sep [] = []"
| "join_with sep [x] = x"
| "join_with sep (x # y # ys) = x @ sep @ join_with sep (y # ys)"

definition attribute_text :: "attributes \<Rightarrow> string \<Rightarrow> string" where
  "attribute_text item k = (case map_of item k of None \<Rightarrow> [] | Some v \<Rightarrow> v)"

definition has_attributes :: "string list \<Rightarrow> attributes \<Rightarrow> bool" where
  "has_attributes ks item = list_all (\<lambda>k. map_of item k \<noteq> None) ks"

definition account_sentence :: "attributes \<Rightarrow> string" where
  "account_sentence a =
     ''The balance in account number '' @ attribute_text a ''AccountIdentifier''
     @ '' is '' @ pound @ attribute_text a ''AccountBalance''"

definition transaction_sentence :: "attributes \<Rightarrow> string" where
  "transaction_sentence t =
     ''Transaction #'' @ attribute_text t ''TransactionIdentifier'' @ '': ''
     @ transaction_type_description (attribute_text t ''Type'')
     @ '' of '' @ pound @ attribute_text t ''Amount''
     @ '' on '' @ attribute_text t ''Date''"

text \<open>The content of the message of a \<open>Close\<close> response; \<open>None\<close> for anything else.\<close>

definition close_content :: "error + response \<Rightarrow> string option" where
  "close_content r =
     (case r of
        Inl e \<Rightarrow> None
      | Inr resp \<Rightarrow>
          (case dialogAction resp of
             Close state m \<Rightarrow> Some (content m)
           | ElicitSlot n s k m \<Rightarrow> None
           | Delegate s \<Rightarrow> None))"

text \<open>
  What "exactly that slot cleared, no other slot touched" means for a slot dictionary: the
  same keys in the same order, the slot now \<open>None\<close>, every other key with its value.
\<close>

definition cleared :: "pyval \<Rightarrow> slots \<Rightarrow> slots \<Rightarrow> bool" where
  "cleared k before after =
     (map fst after = map fst before \<and> map_of after k = Some PyNone \<and>
      (\<forall>k' \<in> set (map fst before). k' \<noteq> k \<longrightarrow> map_of after k' = map_of before k'))"

text \<open>
  The slot and the message of an \<open>ElicitSlot\<close> response; \<open>None\<close> for anything else.
\<close>

definition elicited :: "error + response \<Rightarrow> (pyval \<times> message option) option" where
  "elicited r =
     (case r of
        Inl e \<Rightarrow> None
      | Inr resp \<Rightarrow>
          (case dialogAction resp of
             ElicitSlot n s k m \<Rightarrow> Some (k, m)
           | Delegate s \<Rightarrow> None
           | Close state m \<Rightarrow> None))"


text \<open>
  The message a response carries, if any: a \<open>Delegate\<close> has none.
\<close>

definition response_message :: "error + response \<Rightarrow> message option" where
  "response_message r =
     (case r of
        Inl e \<Rightarrow> None
      | Inr resp \<Rightarrow>
          (case dialogAction resp of
             ElicitSlot n s k m \<Rightarrow> m
           | Delegate s \<Rightarrow> None
           | Close state m \<Rightarrow> Some m))"

subsection \<open>An in-memory store and example turns\<close>

text \<open>
  A store for the closed examples: tables are lists of items, a query returns the items
  that satisfy the key condition, in the order of the table, and their number. A table
  that does not exist raises.
\<close>

fun satisfies :: "attributes \<Rightarrow> key_condition \<Rightarrow> bool" where
  "satisfies item (Key_eq k v) = (case v of PyNone \<Rightarrow> False | PyStr s \<Rightarrow> map_of item k = Some s)"
| "satisfies item (And c d) = (satisfies item c \<and> satisfies item d)"

definition memory_db :: "(string \<times> attributes list) list \<Rightarrow> dynamodb" where
  "memory_db tables table cond =
     (case map_of tables table of
        None \<Rightarrow> Inl (ClientError ''ResourceNotFoundException'')
      | Some rows \<Rightarrow>
          Inr \<lparr>Count = int (length (filter (\<lambda>item. satisfies item cond) rows)),
               Items = filter (\<lambda>item. satisfies item cond) rows\<rparr>)"

definition bank :: dynamodb where
  "bank = memory_db
     [(''ACMEBankCustomer'',
         [[(''CustomerIdentifier'', ''CUS01'')],
          [(''CustomerIdentifier'', ''CUS03'')]]),
      (''ACMEBankAccount'',
         [[(''CustomerIdentifier'', ''CUS03''), (''AccountIdentifier'', ''ACC1''), (''AccountBalance'', ''100'')],
          [(''CustomerIdentifier'', ''CUS03''), (''AccountIdentifier'', ''ACC2''), (''AccountBalance'', ''50'')]]),
      (''ACMEAccountTransaction'',
         [[(''AccountIdentifier'', ''ACC1''), (''TransactionIdentifier'', ''T1''),
           (''Type'', ''TFR''), (''Amount'', ''20''), (''Date'', ''2024-01-01'')],
          [(''AccountIdentifier'', ''ACC2''), (''TransactionIdentifier'', ''T2''),
           (''Type'', ''CW''), (''Amount'', ''5''), (''Date'', ''2024-01-02'')],
          [(''AccountIdentifier'', ''ACC2''), (''TransactionIdentifier'', ''T3''),
           (''Type'', ''SAL''), (''Amount'', ''900''), (''Date'', ''2024-01-03'')]])]"

definition turn :: "string \<Rightarrow> string \<Rightarrow> string \<Rightarrow> attributes option \<Rightarrow> slots \<Rightarrow> event" where
  "turn bot_name' intent source session slots' =
     \<lparr>bot_name = bot_name', currentIntent_name = intent, currentIntent_slots = slots',
      sessionAttributes = session, invocationSource = source\<rparr>"

section \<open>The summary texts\<close>

lemma join_with_Cons:
  "join_with sep (x # xs) = (if xs = [] then x else x @ sep @ join_with sep xs)"
  by (cases xs) simp_all

lemma account_description_sentence:
  "has_attributes [''AccountIdentifier'', ''AccountBalance''] a \<Longrightarrow>
   account_description a = Inr (account_sentence a)"
  by (auto simp: has_attributes_def account_description_def account_sentence_def
      subscript_def attribute_text_def)

lemma transaction_description_sentence:
  "has_attributes [''TransactionIdentifier'', ''Amount'', ''Date'', ''Type''] t \<Longrightarrow>
   transaction_description t = Inr (transaction_sentence t)"
  by (auto simp: has_attributes_def transaction_description_def transaction_sentence_def
      subscript_def attribute_text_def)

lemma account_loop_join:
  "i < length xs \<Longrightarrow> n = int (length xs) \<Longrightarrow>
   list_all (has_attributes [''AccountIdentifier'', ''AccountBalance'']) xs \<Longrightarrow>
   account_loop xs n i acc =
     Inr (acc @ join_with '', '' (map account_sentence (drop i xs)) @ closing_sentence)"
proof (induction xs n i acc rule: account_loop.induct)
  case (1 xs n i acc)
  have d: "account_description (xs ! i) = Inr (account_sentence (xs ! i))"
    using "1.prems" by (simp add: account_description_sentence list_all_length)
  have dr: "drop i xs = xs ! i # drop (Suc i) xs"
    using "1.prems"(1) by (simp add: Cons_nth_drop_Suc)
  show ?case
  proof (cases "Suc i < length xs")
    case True
    have "account_loop xs n (Suc i) ((acc @ account_sentence (xs ! i)) @ '', '') =
      Inr (((acc @ account_sentence (xs ! i)) @ '', '') @
        join_with '', '' (map account_sentence (drop (Suc i) xs)) @ closing_sentence)"
      using "1.IH"[OF _ _ d] "1.prems" True by simp
    moreover have "drop (Suc i) xs \<noteq> []" using True by simp
    ultimately show ?thesis
      using "1.prems" True d
      by (subst account_loop.simps) (simp add: dr join_with_Cons)
  next
    case False
    then have e: "Suc i = length xs" using "1.prems"(1) by simp
    have last: "account_loop xs n (Suc i) ((acc @ account_sentence (xs ! i)) @ closing_sentence) =
      Inr ((acc @ account_sentence (xs ! i)) @ closing_sentence)"
      using e "1.prems"(2) by (subst account_loop.simps) simp
    have "int i = n - 1" using e "1.prems"(2) by simp
    then show ?thesis
      using "1.prems" d last e
      by (subst account_loop.simps) (simp add: dr join_with_Cons)
  qed
qed

lemma transaction_loop_join:
  "i < length xs \<Longrightarrow> n = int (length xs) \<Longrightarrow>
   list_all (has_attributes [''TransactionIdentifier'', ''Amount'', ''Date'', ''Type'']) xs \<Longrightarrow>
   transaction_loop xs n i acc =
     Inr (acc @ join_with '', '' (map transaction_sentence (drop i xs)) @ closing_sentence)"
proof (induction xs n i acc rule: transaction_loop.induct)
  case (1 xs n i acc)
  have d: "transaction_description (xs ! i) = Inr (transaction_sentence (xs ! i))"
    using "1.prems" by (simp add: transaction_description_sentence list_all_length)
  have dr: "drop i xs = xs ! i # drop (Suc i) xs"
    using "1.prems"(1) by (simp add: Cons_nth_drop_Suc)
  show ?case
  proof (cases "Suc i < length xs")
    case True
    have "transaction_loop xs n (Suc i) ((acc @ transaction_sentence (xs ! i)) @ '', '') =
      Inr (((acc @ transaction_sentence (xs ! i)) @ '', '') @
        join_with '', '' (map transaction_sentence (drop (Suc i) xs)) @ closing_sentence)"
      using "1.IH"[OF _ _ d] "1.prems" True by simp
    moreover have "drop (Suc i) xs \<noteq> []" using True by simp
    ultimately show ?thesis
      using "1.prems" True d
      by (subst transaction_loop.simps) (simp add: dr join_with_Cons)
  next
    case False
    then have e: "Suc i = length xs" using "1.prems"(1) by simp
    have last: "transaction_loop xs n (Suc i) ((acc @ transaction_sentence (xs ! i)) @ closing_sentence) =
      Inr ((acc @ transaction_sentence (xs ! i)) @ closing_sentence)"
      using e "1.prems"(2) by (subst transaction_loop.simps) simp
    have "int i = n - 1" using e "1.prems"(2) by simp
    then show ?thesis
      using "1.prems" d last e
      by (subst transaction_loop.simps) (simp add: dr join_with_Cons)
  qed
qed

lemmas bank_defs = bank_def memory_db_def query_def turn_def

text \<open>
  Claim C7. Whenever the query on the account table returns a response whose \<open>Count\<close> is
  the number of its items and whose items carry the two attributes the loop reads,
  \<open>get_account_overview\<close> returns the fixed sentence for zero accounts, and otherwise the
  sentence "The balance in account number {id} is {pound sign}{balance}" of every account,
  in the order of the response, joined with ", " and followed directly by
  ". Is there anything else I can help you with?"; it makes that one query.
\<close>

theorem get_account_overview_text:
  assumes "dynamodb_resource ''ACMEBankAccount'' (Key_eq ''CustomerIdentifier'' customer_identifier) = Inr r"
    and "Count r = int (length (Items r))"
    and "list_all (has_attributes [''AccountIdentifier'', ''AccountBalance'']) (Items r)"
  shows "get_account_overview dynamodb_resource customer_identifier =
    (Inr (if Items r = []
          then ''I could not find any accounts for you on our systems. Is there anything else I can help you with?''
          else join_with '', '' (map account_sentence (Items r))
               @ ''. Is there anything else I can help you with?''),
     [Query ''ACMEBankAccount'' (Key_eq ''CustomerIdentifier'' customer_identifier)])"
proof (cases "Items r = []")
  case True
  then show ?thesis
    using assms by (simp add: get_account_overview_def query_def)
next
  case False
  then have "0 < length (Items r)" by simp
  from account_loop_join[OF this assms(2) assms(3), of "[]"] False assms(1,2)
  show ?thesis
    by (simp add: get_account_overview_def query_def closing_sentence_def)
qed

theorem get_account_overview_text_witness:
  "fst (get_account_overview bank (PyStr ''CUS03'')) =
     Inr (''The balance in account number ACC1 is '' @ pound @ ''100, The balance in account number ACC2 is ''
          @ pound @ ''50. Is there anything else I can help you with?'')
   \<and> fst (get_account_overview bank (PyStr ''CUS01'')) =
     Inr ''I could not find any accounts for you on our systems. Is there anything else I can help you with?''"
  using get_account_overview_text [of bank "PyStr ''CUS03''"
      "\<lparr>Count = 2, Items =
         [[(''CustomerIdentifier'', ''CUS03''), (''AccountIdentifier'', ''ACC1''), (''AccountBalance'', ''100'')],
          [(''CustomerIdentifier'', ''CUS03''), (''AccountIdentifier'', ''ACC2''), (''AccountBalance'', ''50'')]]\<rparr>"]
    get_account_overview_text [of bank "PyStr ''CUS01''" "\<lparr>Count = 0, Items = []\<rparr>"]
  by (simp add: bank_defs has_attributes_def account_sentence_def attribute_text_def)

text \<open>
  Claim C8. Whenever the query on the transaction table returns a response whose \<open>Count\<close>
  is the number of its items and whose items carry the four attributes the loop reads,
  \<open>get_transaction_summary\<close> returns the fixed sentence for zero transactions, and
  otherwise the sentence "Transaction #{id}: {label} of {pound sign}{amount} on {date}" of
  every transaction, joined with ", " and followed by the closing sentence; the label of
  type code CW is "cash withdrawal", of TFR "outbound transfer", of anything else "credit".
\<close>

theorem get_transaction_summary_text:
  assumes "dynamodb_resource ''ACMEAccountTransaction'' (Key_eq ''AccountIdentifier'' account_identifier) = Inr r"
    and "Count r = int (length (Items r))"
    and "list_all (has_attributes [''TransactionIdentifier'', ''Amount'', ''Date'', ''Type'']) (Items r)"
  shows "get_transaction_summary dynamodb_resource account_identifier =
    (Inr (if Items r = []
          then ''I could not find any transactions for this account on our systems. Is there anything else I can help you with?''
          else join_with '', '' (map transaction_sentence (Items r))
               @ ''. Is there anything else I can help you with?''),
     [Query ''ACMEAccountTransaction'' (Key_eq ''AccountIdentifier'' account_identifier)])
   \<and> transaction_type_description code =
       (if code = ''CW'' then ''cash withdrawal''
        else if code = ''TFR'' then ''outbound transfer'' else ''credit'')"
proof (cases "Items r = []")
  case True
  then show ?thesis
    using assms by (simp add: get_transaction_summary_def query_def transaction_type_description_def)
next
  case False
  then have "0 < length (Items r)" by simp
  from transaction_loop_join[OF this assms(2) assms(3), of "[]"] False assms(1,2)
  show ?thesis
    by (simp add: get_transaction_summary_def query_def closing_sentence_def
        transaction_type_description_def)
qed

theorem get_transaction_summary_text_witness:
  "fst (get_transaction_summary bank (PyStr ''ACC1'')) =
     Inr (''Transaction #T1: outbound transfer of '' @ pound
          @ ''20 on 2024-01-01. Is there anything else I can help you with?'')
   \<and> fst (get_transaction_summary bank (PyStr ''ACC2'')) =
     Inr (''Transaction #T2: cash withdrawal of '' @ pound @ ''5 on 2024-01-02, Transaction #T3: credit of ''
          @ pound @ ''900 on 2024-01-03. Is there anything else I can help you with?'')
   \<and> fst (get_transaction_summary bank (PyStr ''ACC7'')) =
     Inr ''I could not find any transactions for this account on our systems. Is there anything else I can help you with?''"
  using get_transaction_summary_text [of bank "PyStr ''ACC1''"
      "\<lparr>Count = 1, Items =
         [[(''AccountIdentifier'', ''ACC1''), (''TransactionIdentifier'', ''T1''),
           (''Type'', ''TFR''), (''Amount'', ''20''), (''Date'', ''2024-01-01'')]]\<rparr>"]
    get_transaction_summary_text [of bank "PyStr ''ACC2''"
      "\<lparr>Count = 2, Items =
         [[(''AccountIdentifier'', ''ACC2''), (''TransactionIdentifier'', ''T2''),
           (''Type'', ''CW''), (''Amount'', ''5''), (''Date'', ''2024-01-02'')],
          [(''AccountIdentifier'', ''ACC2''), (''TransactionIdentifier'', ''T3''),
           (''Type'', ''SAL''), (''Amount'', ''900''), (''Date'', ''2024-01-03'')]]\<rparr>"]
    get_transaction_summary_text [of bank "PyStr ''ACC7''" "\<lparr>Count = 0, Items = []\<rparr>"]
  by (simp add: bank_defs has_attributes_def transaction_sentence_def attribute_text_def
      transaction_type_description_def)

section \<open>The handlers, branch by branch\<close>

lemma validate_customer_identifier_calls:
  "snd (validate_customer_identifier db c) =
     [Query ''ACMEBankCustomer'' (Key_eq ''CustomerIdentifier'' c)]"
  by (simp add: validate_customer_identifier_def query_def split: sum.splits)

lemma validate_account_identifier_calls:
  "snd (validate_account_identifier db c a) =
     [Query ''ACMEBankAccount''
        (And (Key_eq ''CustomerIdentifier'' c) (Key_eq ''AccountIdentifier'' a))]"
  by (simp add: validate_account_identifier_def query_def split: sum.splits)

lemma get_account_overview_calls:
  "snd (get_account_overview db c) =
     [Query ''ACMEBankAccount'' (Key_eq ''CustomerIdentifier'' c)]"
  by (simp add: get_account_overview_def query_def Let_def split: sum.splits)

lemma get_transaction_summary_calls:
  "snd (get_transaction_summary db a) =
     [Query ''ACMEAccountTransaction'' (Key_eq ''AccountIdentifier'' a)]"
  by (simp add: get_transaction_summary_def query_def Let_def split: sum.splits)

lemma update_cleared:
  "map_of s k = Some v \<Longrightarrow> cleared k s (AList.update k PyNone s)"
proof -
  assume "map_of s k = Some v"
  then have "k \<in> fst ` set s" by (force dest: map_of_SomeD)
  then show ?thesis
    by (simp add: cleared_def update_keys update_conv')
qed


lemmas handler_defs =
  lambda_handler_AO_def lambda_handler_TL_def dialog_code_hook_AO_def dialog_code_hook_TL_def
  elicit_slot_def defer_next_action_to_chatbot_def close_fulfilled_def Let_def

lemmas example_defs =
  bank_defs validate_customer_identifier_def validate_account_identifier_def

lemma AO_invalid_customer:
  assumes "bot_name ev = ''ACMEBankBot''" and "currentIntent_name ev = ''AccountOverview''"
    and "invocationSource ev = ''DialogCodeHook''"
    and "map_of (currentIntent_slots ev) (PyStr ''CustomerIdentifier'') = Some c"
    and "c \<noteq> PyNone"
    and "fst (validate_customer_identifier db c) = Inr False"
  shows "lambda_handler_AO db ev =
    (Inr \<lparr>response_sessionAttributes = sessionAttributes ev,
          dialogAction = Delegate (AList.update (PyStr ''CustomerIdentifier'') PyNone
                                     (currentIntent_slots ev))\<rparr>,
     [Query ''ACMEBankCustomer'' (Key_eq ''CustomerIdentifier'' c)])"
proof -
  obtain cs where "validate_customer_identifier db c = (Inr False, cs)"
    using assms(6) by (cases "validate_customer_identifier db c") simp
  moreover from this have "cs = [Query ''ACMEBankCustomer'' (Key_eq ''CustomerIdentifier'' c)]"
    using validate_customer_identifier_calls[of db c] by simp
  ultimately show ?thesis
    using assms(1-5) by (simp add: handler_defs)
qed

lemma TL_invalid_customer:
  assumes "bot_name ev = ''ACMEBankBot''" and "currentIntent_name ev = ''ViewTransactionList''"
    and "invocationSource ev = ''DialogCodeHook''"
    and "map_of (currentIntent_slots ev) (PyStr ''CustomerIdentifier'') = Some c"
    and "map_of (currentIntent_slots ev) (PyStr ''AccountIdentifier'') = Some a"
    and "c \<noteq> PyNone" and "a \<noteq> PyNone"
    and "fst (validate_customer_identifier db c) = Inr False"
  shows "lambda_handler_TL db ev =
    (Inr \<lparr>response_sessionAttributes = sessionAttributes ev,
          dialogAction = Delegate (AList.update (PyStr ''CustomerIdentifier'') PyNone
                                     (currentIntent_slots ev))\<rparr>,
     [Query ''ACMEBankCustomer'' (Key_eq ''CustomerIdentifier'' c)])"
proof -
  obtain cs where "validate_customer_identifier db c = (Inr False, cs)"
    using assms(8) by (cases "validate_customer_identifier db c") simp
  moreover from this have "cs = [Query ''ACMEBankCustomer'' (Key_eq ''CustomerIdentifier'' c)]"
    using validate_customer_identifier_calls[of db c] by simp
  ultimately show ?thesis
    using assms(1-7) by (simp add: handler_defs)
qed

lemma TL_invalid_account:
  assumes "bot_name ev = ''ACMEBankBot''" and "currentIntent_name ev = ''ViewTransactionList''"
    and "invocationSource ev = ''DialogCodeHook''"
    and "map_of (currentIntent_slots ev) (PyStr ''CustomerIdentifier'') = Some c"
    and "map_of (currentIntent_slots ev) (PyStr ''AccountIdentifier'') = Some a"
    and "c \<noteq> PyNone" and "a \<noteq> PyNone"
    and "fst (validate_customer_identifier db c) = Inr True"
    and "fst (validate_account_identifier db c a) = Inr False"
  shows "lambda_handler_TL db ev =
    (Inr \<lparr>response_sessionAttributes = sessionAttributes ev,
          dialogAction = Delegate (AList.update (PyStr ''AccountIdentifier'') PyNone
                                     (currentIntent_slots ev))\<rparr>,
     [Query ''ACMEBankCustomer'' (Key_eq ''CustomerIdentifier'' c),
      Query ''ACMEBankAccount''
        (And (Key_eq ''CustomerIdentifier'' c) (Key_eq ''AccountIdentifier'' a))])"
proof -
  obtain cs where c: "validate_customer_identifier db c = (Inr True, cs)"
    using assms(8) by (cases "validate_customer_identifier db c") simp
  then have cs: "cs = [Query ''ACMEBankCustomer'' (Key_eq ''CustomerIdentifier'' c)]"
    using validate_customer_identifier_calls[of db c] by simp
  obtain cs' where a: "validate_account_identifier db c a = (Inr False, cs')"
    using assms(9) by (cases "validate_account_identifier db c a") simp
  then have cs': "cs' = [Query ''ACMEBankAccount''
        (And (Key_eq ''CustomerIdentifier'' c) (Key_eq ''AccountIdentifier'' a))]"
    using validate_account_identifier_calls[of db c a] by simp
  show ?thesis
    using assms(1-7) c a cs cs' by (simp add: handler_defs)
qed

lemma AO_absent_customer:
  assumes "bot_name ev = ''ACMEBankBot''" and "currentIntent_name ev = ''AccountOverview''"
    and "invocationSource ev = ''DialogCodeHook''"
    and "map_of (currentIntent_slots ev) (PyStr ''CustomerIdentifier'') = Some PyNone"
  shows "lambda_handler_AO db ev =
    (Inr \<lparr>response_sessionAttributes = sessionAttributes ev,
          dialogAction = ElicitSlot ''AccountOverview'' (currentIntent_slots ev)
                           (PyStr ''CustomerIdentifier'') None\<rparr>, [])"
  using assms by (simp add: handler_defs)

lemma TL_absent_customer:
  assumes "bot_name ev = ''ACMEBankBot''" and "currentIntent_name ev = ''ViewTransactionList''"
    and "invocationSource ev = ''DialogCodeHook''"
    and "map_of (currentIntent_slots ev) (PyStr ''CustomerIdentifier'') = Some PyNone"
    and "map_of (currentIntent_slots ev) (PyStr ''AccountIdentifier'') = Some a"
  shows "lambda_handler_TL db ev =
    (Inr \<lparr>response_sessionAttributes = sessionAttributes ev,
          dialogAction = ElicitSlot ''ViewTransactionList'' (currentIntent_slots ev)
                           (PyStr ''CustomerIdentifier'') None\<rparr>, [])"
  using assms by (simp add: handler_defs)

lemma TL_absent_account:
  assumes "bot_name ev = ''ACMEBankBot''" and "currentIntent_name ev = ''ViewTransactionList''"
    and "invocationSource ev = ''DialogCodeHook''"
    and "map_of (currentIntent_slots ev) (PyStr ''CustomerIdentifier'') = Some c"
    and "c \<noteq> PyNone"
    and "map_of (currentIntent_slots ev) (PyStr ''AccountIdentifier'') = Some PyNone"
  shows "lambda_handler_TL db ev =
    (Inr \<lparr>response_sessionAttributes = sessionAttributes ev,
          dialogAction = ElicitSlot ''ViewTransactionList'' (currentIntent_slots ev)
                           (PyStr ''AccountIdentifier'') None\<rparr>, [])"
  using assms by (simp add: handler_defs)

lemma AO_fulfillment:
  assumes "bot_name ev = ''ACMEBankBot''" and "currentIntent_name ev = ''AccountOverview''"
    and "invocationSource ev \<noteq> ''DialogCodeHook''"
    and "map_of (currentIntent_slots ev) (PyStr ''CustomerIdentifier'') = Some c"
  shows "lambda_handler_AO db ev =
    (map_sum id (close_fulfilled (sessionAttributes ev)) (fst (get_account_overview db c)),
     [Query ''ACMEBankAccount'' (Key_eq ''CustomerIdentifier'' c)])"
  using assms get_account_overview_calls[of db c]
  by (cases "get_account_overview db c") (auto simp: handler_defs split: sum.splits)

lemma TL_fulfillment:
  assumes "bot_name ev = ''ACMEBankBot''" and "currentIntent_name ev = ''ViewTransactionList''"
    and "invocationSource ev \<noteq> ''DialogCodeHook''"
    and "map_of (currentIntent_slots ev) (PyStr ''CustomerIdentifier'') = Some c"
    and "map_of (currentIntent_slots ev) (PyStr ''AccountIdentifier'') = Some a"
  shows "lambda_handler_TL db ev =
    (map_sum id (close_fulfilled (sessionAttributes ev)) (fst (get_transaction_summary db a)),
     [Query ''ACMEAccountTransaction'' (Key_eq ''AccountIdentifier'' a)])"
  using assms get_transaction_summary_calls[of db a]
  by (cases "get_transaction_summary db a") (auto simp: handler_defs split: sum.splits)

section \<open>Invalid slot values\<close>

text \<open>
  Claim C1, as amended. In a validation turn (\<open>invocationSource = 'DialogCodeHook'\<close>) where
  every required slot is present and one of them is invalid, the account overview and the
  transaction list handlers return a \<open>Delegate\<close> response (no slot named, no message)
  that carries the session attributes of the event and the slot dictionary with exactly the
  invalid slot set to \<open>None\<close>: CustomerIdentifier when the customer query finds nothing,
  AccountIdentifier when the customer is found and the account query finds nothing.
\<close>

theorem invalid_slot_cleared:
  "(bot_name ev = ''ACMEBankBot'' \<and> currentIntent_name ev = ''AccountOverview'' \<and>
    invocationSource ev = ''DialogCodeHook'' \<and>
    map_of (currentIntent_slots ev) (PyStr ''CustomerIdentifier'') = Some c \<and> c \<noteq> PyNone \<and>
    fst (validate_customer_identifier db c) = Inr False \<longrightarrow>
      fst (lambda_handler_AO db ev) =
        Inr \<lparr>response_sessionAttributes = sessionAttributes ev,
             dialogAction = Delegate (AList.update (PyStr ''CustomerIdentifier'') PyNone
                                        (currentIntent_slots ev))\<rparr> \<and>
      cleared (PyStr ''CustomerIdentifier'') (currentIntent_slots ev)
        (AList.update (PyStr ''CustomerIdentifier'') PyNone (currentIntent_slots ev)))
   \<and>
   (bot_name ev = ''ACMEBankBot'' \<and> currentIntent_name ev = ''ViewTransactionList'' \<and>
    invocationSource ev = ''DialogCodeHook'' \<and>
    map_of (currentIntent_slots ev) (PyStr ''CustomerIdentifier'') = Some c \<and> c \<noteq> PyNone \<and>
    map_of (currentIntent_slots ev) (PyStr ''AccountIdentifier'') = Some a \<and> a \<noteq> PyNone \<and>
    fst (validate_customer_identifier db c) = Inr False \<longrightarrow>
      fst (lambda_handler_TL db ev) =
        Inr \<lparr>response_sessionAttributes = sessionAttributes ev,
             dialogAction = Delegate (AList.update (PyStr ''CustomerIdentifier'') PyNone
                                        (currentIntent_slots ev))\<rparr> \<and>
      cleared (PyStr ''CustomerIdentifier'') (currentIntent_slots ev)
        (AList.update (PyStr ''CustomerIdentifier'') PyNone (currentIntent_slots ev)))
   \<and>
   (bot_name ev = ''ACMEBankBot'' \<and> currentIntent_name ev = ''ViewTransactionList'' \<and>
    invocationSource ev = ''DialogCodeHook'' \<and>
    map_of (currentIntent_slots ev) (PyStr ''CustomerIdentifier'') = Some c \<and> c \<noteq> PyNone \<and>
    map_of (currentIntent_slots ev) (PyStr ''AccountIdentifier'') = Some a \<and> a \<noteq> PyNone \<and>
    fst (validate_customer_identifier db c) = Inr True \<and>
    fst (validate_account_identifier db c a) = Inr False \<longrightarrow>
      fst (lambda_handler_TL db ev) =
        Inr \<lparr>response_sessionAttributes = sessionAttributes ev,
             dialogAction = Delegate (AList.update (PyStr ''AccountIdentifier'') PyNone
                                        (currentIntent_slots ev))\<rparr> \<and>
      cleared (PyStr ''AccountIdentifier'') (currentIntent_slots ev)
        (AList.update (PyStr ''AccountIdentifier'') PyNone (currentIntent_slots ev)))"
proof (intro conjI impI)
  assume h: "bot_name ev = ''ACMEBankBot'' \<and> currentIntent_name ev = ''AccountOverview'' \<and>
    invocationSource ev = ''DialogCodeHook'' \<and>
    map_of (currentIntent_slots ev) (PyStr ''CustomerIdentifier'') = Some c \<and> c \<noteq> PyNone \<and>
    fst (validate_customer_identifier db c) = Inr False"
  then show "fst (lambda_handler_AO db ev) =
        Inr \<lparr>response_sessionAttributes = sessionAttributes ev,
             dialogAction = Delegate (AList.update (PyStr ''CustomerIdentifier'') PyNone
                                        (currentIntent_slots ev))\<rparr>"
    by (simp add: AO_invalid_customer)
  from h show "cleared (PyStr ''CustomerIdentifier'') (currentIntent_slots ev)
        (AList.update (PyStr ''CustomerIdentifier'') PyNone (currentIntent_slots ev))"
    by (simp add: update_cleared)
next
  assume h: "bot_name ev = ''ACMEBankBot'' \<and> currentIntent_name ev = ''ViewTransactionList'' \<and>
    invocationSource ev = ''DialogCodeHook'' \<and>
    map_of (currentIntent_slots ev) (PyStr ''CustomerIdentifier'') = Some c \<and> c \<noteq> PyNone \<and>
    map_of (currentIntent_slots ev) (PyStr ''AccountIdentifier'') = Some a \<and> a \<noteq> PyNone \<and>
    fst (validate_customer_identifier db c) = Inr False"
  then show "fst (lambda_handler_TL db ev) =
        Inr \<lparr>response_sessionAttributes = sessionAttributes ev,
             dialogAction = Delegate (AList.update (PyStr ''CustomerIdentifier'') PyNone
                                        (currentIntent_slots ev))\<rparr>"
    by (simp add: TL_invalid_customer)
  from h show "cleared (PyStr ''CustomerIdentifier'') (currentIntent_slots ev)
        (AList.update (PyStr ''CustomerIdentifier'') PyNone (currentIntent_slots ev))"
    by (simp add: update_cleared)
next
  assume h: "bot_name ev = ''ACMEBankBot'' \<and> currentIntent_name ev = ''ViewTransactionList'' \<and>
    invocationSource ev = ''DialogCodeHook'' \<and>
    map_of (currentIntent_slots ev) (PyStr ''CustomerIdentifier'') = Some c \<and> c \<noteq> PyNone \<and>
    map_of (currentIntent_slots ev) (PyStr ''AccountIdentifier'') = Some a \<and> a \<noteq> PyNone \<and>
    fst (validate_customer_identifier db c) = Inr True \<and>
    fst (validate_account_identifier db c a) = Inr False"
  then show "fst (lambda_handler_TL db ev) =
        Inr \<lparr>response_sessionAttributes = sessionAttributes ev,
             dialogAction = Delegate (AList.update (PyStr ''AccountIdentifier'') PyNone
                                        (currentIntent_slots ev))\<rparr>"
    by (simp add: TL_invalid_account)
  from h show "cleared (PyStr ''AccountIdentifier'') (currentIntent_slots ev)
        (AList.update (PyStr ''AccountIdentifier'') PyNone (currentIntent_slots ev))"
    by (simp add: update_cleared)
qed

theorem invalid_slot_cleared_witness:
  "fst (lambda_handler_AO bank
      (turn ''ACMEBankBot'' ''AccountOverview'' ''DialogCodeHook'' (Some [(''channel'', ''web'')])
         [(PyStr ''CustomerIdentifier'', PyStr ''NOPE'')])) =
     Inr \<lparr>response_sessionAttributes = Some [(''channel'', ''web'')],
          dialogAction = Delegate [(PyStr ''CustomerIdentifier'', PyNone)]\<rparr>
   \<and> fst (lambda_handler_TL bank
      (turn ''ACMEBankBot'' ''ViewTransactionList'' ''DialogCodeHook'' None
         [(PyStr ''CustomerIdentifier'', PyStr ''NOPE''), (PyStr ''AccountIdentifier'', PyStr ''ACC1'')])) =
     Inr \<lparr>response_sessionAttributes = None,
          dialogAction = Delegate [(PyStr ''CustomerIdentifier'', PyNone),
                                   (PyStr ''AccountIdentifier'', PyStr ''ACC1'')]\<rparr>
   \<and> fst (lambda_handler_TL bank
      (turn ''ACMEBankBot'' ''ViewTransactionList'' ''DialogCodeHook'' None
         [(PyStr ''CustomerIdentifier'', PyStr ''CUS03''), (PyStr ''AccountIdentifier'', PyStr ''ACC9'')])) =
     Inr \<lparr>response_sessionAttributes = None,
          dialogAction = Delegate [(PyStr ''CustomerIdentifier'', PyStr ''CUS03''),
                                   (PyStr ''AccountIdentifier'', PyNone)]\<rparr>"
  using
    invalid_slot_cleared [of
      "turn ''ACMEBankBot'' ''AccountOverview'' ''DialogCodeHook'' (Some [(''channel'', ''web'')])
         [(PyStr ''CustomerIdentifier'', PyStr ''NOPE'')]"
      "PyStr ''NOPE''" bank "PyStr ''ACC1''"]
    invalid_slot_cleared [of
      "turn ''ACMEBankBot'' ''ViewTransactionList'' ''DialogCodeHook'' None
         [(PyStr ''CustomerIdentifier'', PyStr ''NOPE''), (PyStr ''AccountIdentifier'', PyStr ''ACC1'')]"
      "PyStr ''NOPE''" bank "PyStr ''ACC1''"]
    invalid_slot_cleared [of
      "turn ''ACMEBankBot'' ''ViewTransactionList'' ''DialogCodeHook'' None
         [(PyStr ''CustomerIdentifier'', PyStr ''CUS03''), (PyStr ''AccountIdentifier'', PyStr ''ACC9'')]"
      "PyStr ''CUS03''" bank "PyStr ''ACC9''"]
  by (simp add: example_defs cleared_def)

text \<open>
  The claim as first stated fails on the account overview handler: a validation turn with
  an unknown customer identifier is answered with \<open>Delegate\<close>, not \<open>ElicitSlot\<close>,
  and without a message.
\<close>

theorem invalid_customer_delegated_not_elicited:
  "fst (validate_customer_identifier bank (PyStr ''NOPE'')) = Inr False
   \<and> fst (lambda_handler_AO bank
      (turn ''ACMEBankBot'' ''AccountOverview'' ''DialogCodeHook'' (Some [])
         [(PyStr ''CustomerIdentifier'', PyStr ''NOPE'')])) =
     Inr \<lparr>response_sessionAttributes = Some [],
          dialogAction = Delegate [(PyStr ''CustomerIdentifier'', PyNone)]\<rparr>
   \<and> elicited (fst (lambda_handler_AO bank
      (turn ''ACMEBankBot'' ''AccountOverview'' ''DialogCodeHook'' (Some [])
         [(PyStr ''CustomerIdentifier'', PyStr ''NOPE'')]))) = None"
  by (simp add: example_defs handler_defs elicited_def)

section \<open>The order of the checks\<close>

text \<open>
  Claim C2, as amended. In a validation turn the transaction list handler first checks that
  the slots are present, in declared order (CustomerIdentifier, then AccountIdentifier),
  and elicits the first absent one without querying the store; only when both are present
  does it validate them, again in declared order, and the first invalid one ends the turn
  with that slot cleared, before any later lookup: the trace holds the customer query alone
  when the customer is invalid, and the customer query followed by the account query when
  only the account is invalid. So a turn whose CustomerIdentifier is present but invalid
  and whose AccountIdentifier is absent elicits AccountIdentifier.
\<close>

theorem validation_order_TL:
  assumes "bot_name ev = ''ACMEBankBot''" and "currentIntent_name ev = ''ViewTransactionList''"
    and "invocationSource ev = ''DialogCodeHook''"
    and "map_of (currentIntent_slots ev) (PyStr ''CustomerIdentifier'') = Some c"
    and "map_of (currentIntent_slots ev) (PyStr ''AccountIdentifier'') = Some a"
  shows
   "(c = PyNone \<longrightarrow>
       lambda_handler_TL db ev =
         (Inr \<lparr>response_sessionAttributes = sessionAttributes ev,
               dialogAction = ElicitSlot ''ViewTransactionList'' (currentIntent_slots ev)
                                (PyStr ''CustomerIdentifier'') None\<rparr>, []))
    \<and> (c \<noteq> PyNone \<and> a = PyNone \<longrightarrow>
       lambda_handler_TL db ev =
         (Inr \<lparr>response_sessionAttributes = sessionAttributes ev,
               dialogAction = ElicitSlot ''ViewTransactionList'' (currentIntent_slots ev)
                                (PyStr ''AccountIdentifier'') None\<rparr>, []))
    \<and> (c \<noteq> PyNone \<and> a \<noteq> PyNone \<and> fst (validate_customer_identifier db c) = Inr False \<longrightarrow>
       lambda_handler_TL db ev =
         (Inr \<lparr>response_sessionAttributes = sessionAttributes ev,
               dialogAction = Delegate (AList.update (PyStr ''CustomerIdentifier'') PyNone
                                          (currentIntent_slots ev))\<rparr>,
          [Query ''ACMEBankCustomer'' (Key_eq ''CustomerIdentifier'' c)]))
    \<and> (c \<noteq> PyNone \<and> a \<noteq> PyNone \<and> fst (validate_customer_identifier db c) = Inr True \<and>
        fst (validate_account_identifier db c a) = Inr False \<longrightarrow>
       lambda_handler_TL db ev =
         (Inr \<lparr>response_sessionAttributes = sessionAttributes ev,
               dialogAction = Delegate (AList.update (PyStr ''AccountIdentifier'') PyNone
                                          (currentIntent_slots ev))\<rparr>,
          [Query ''ACMEBankCustomer'' (Key_eq ''CustomerIdentifier'' c),
           Query ''ACMEBankAccount''
             (And (Key_eq ''CustomerIdentifier'' c) (Key_eq ''AccountIdentifier'' a))]))"
proof (intro conjI impI)
  assume "c = PyNone"
  with assms show "lambda_handler_TL db ev =
         (Inr \<lparr>response_sessionAttributes = sessionAttributes ev,
               dialogAction = ElicitSlot ''ViewTransactionList'' (currentIntent_slots ev)
                                (PyStr ''CustomerIdentifier'') None\<rparr>, [])"
    using TL_absent_customer[of ev a db] by simp
next
  assume "c \<noteq> PyNone \<and> a = PyNone"
  with assms show "lambda_handler_TL db ev =
         (Inr \<lparr>response_sessionAttributes = sessionAttributes ev,
               dialogAction = ElicitSlot ''ViewTransactionList'' (currentIntent_slots ev)
                                (PyStr ''AccountIdentifier'') None\<rparr>, [])"
    using TL_absent_account[of ev c db] by simp
next
  assume "c \<noteq> PyNone \<and> a \<noteq> PyNone \<and> fst (validate_customer_identifier db c) = Inr False"
  with assms show "lambda_handler_TL db ev =
         (Inr \<lparr>response_sessionAttributes = sessionAttributes ev,
               dialogAction = Delegate (AList.update (PyStr ''CustomerIdentifier'') PyNone
                                          (currentIntent_slots ev))\<rparr>,
          [Query ''ACMEBankCustomer'' (Key_eq ''CustomerIdentifier'' c)])"
    using TL_invalid_customer[of ev c a db] by simp
next
  assume "c \<noteq> PyNone \<and> a \<noteq> PyNone \<and> fst (validate_customer_identifier db c) = Inr True \<and>
        fst (validate_account_identifier db c a) = Inr False"
  with assms show "lambda_handler_TL db ev =
         (Inr \<lparr>response_sessionAttributes = sessionAttributes ev,
               dialogAction = Delegate (AList.update (PyStr ''AccountIdentifier'') PyNone
                                          (currentIntent_slots ev))\<rparr>,
          [Query ''ACMEBankCustomer'' (Key_eq ''CustomerIdentifier'' c),
           Query ''ACMEBankAccount''
             (And (Key_eq ''CustomerIdentifier'' c) (Key_eq ''AccountIdentifier'' a))])"
    using TL_invalid_account[of ev c a db] by simp
qed

theorem validation_order_TL_witness:
  "lambda_handler_TL bank
      (turn ''ACMEBankBot'' ''ViewTransactionList'' ''DialogCodeHook'' None
         [(PyStr ''CustomerIdentifier'', PyNone), (PyStr ''AccountIdentifier'', PyNone)]) =
     (Inr \<lparr>response_sessionAttributes = None,
           dialogAction = ElicitSlot ''ViewTransactionList''
             [(PyStr ''CustomerIdentifier'', PyNone), (PyStr ''AccountIdentifier'', PyNone)]
             (PyStr ''CustomerIdentifier'') None\<rparr>, [])
   \<and> lambda_handler_TL bank
      (turn ''ACMEBankBot'' ''ViewTransactionList'' ''DialogCodeHook'' None
         [(PyStr ''CustomerIdentifier'', PyStr ''NOPE''), (PyStr ''AccountIdentifier'', PyNone)]) =
     (Inr \<lparr>response_sessionAttributes = None,
           dialogAction = ElicitSlot ''ViewTransactionList''
             [(PyStr ''CustomerIdentifier'', PyStr ''NOPE''), (PyStr ''AccountIdentifier'', PyNone)]
             (PyStr ''AccountIdentifier'') None\<rparr>, [])
   \<and> lambda_handler_TL bank
      (turn ''ACMEBankBot'' ''ViewTransactionList'' ''DialogCodeHook'' None
         [(PyStr ''CustomerIdentifier'', PyStr ''NOPE''), (PyStr ''AccountIdentifier'', PyStr ''ACC1'')]) =
     (Inr \<lparr>response_sessionAttributes = None,
           dialogAction = Delegate
             [(PyStr ''CustomerIdentifier'', PyNone), (PyStr ''AccountIdentifier'', PyStr ''ACC1'')]\<rparr>,
      [Query ''ACMEBankCustomer'' (Key_eq ''CustomerIdentifier'' (PyStr ''NOPE''))])
   \<and> lambda_handler_TL bank
      (turn ''ACMEBankBot'' ''ViewTransactionList'' ''DialogCodeHook'' None
         [(PyStr ''CustomerIdentifier'', PyStr ''CUS03''), (PyStr ''AccountIdentifier'', PyStr ''ACC9'')]) =
     (Inr \<lparr>response_sessionAttributes = None,
           dialogAction = Delegate
             [(PyStr ''CustomerIdentifier'', PyStr ''CUS03''), (PyStr ''AccountIdentifier'', PyNone)]\<rparr>,
      [Query ''ACMEBankCustomer'' (Key_eq ''CustomerIdentifier'' (PyStr ''CUS03'')),
       Query ''ACMEBankAccount''
         (And (Key_eq ''CustomerIdentifier'' (PyStr ''CUS03''))
              (Key_eq ''AccountIdentifier'' (PyStr ''ACC9'')))])"
  using
    validation_order_TL [of
      "turn ''ACMEBankBot'' ''ViewTransactionList'' ''DialogCodeHook'' None
         [(PyStr ''CustomerIdentifier'', PyNone), (PyStr ''AccountIdentifier'', PyNone)]"
      PyNone PyNone bank]
    validation_order_TL [of
      "turn ''ACMEBankBot'' ''ViewTransactionList'' ''DialogCodeHook'' None
         [(PyStr ''CustomerIdentifier'', PyStr ''NOPE''), (PyStr ''AccountIdentifier'', PyNone)]"
      "PyStr ''NOPE''" PyNone bank]
    validation_order_TL [of
      "turn ''ACMEBankBot'' ''ViewTransactionList'' ''DialogCodeHook'' None
         [(PyStr ''CustomerIdentifier'', PyStr ''NOPE''), (PyStr ''AccountIdentifier'', PyStr ''ACC1'')]"
      "PyStr ''NOPE''" "PyStr ''ACC1''" bank]
    validation_order_TL [of
      "turn ''ACMEBankBot'' ''ViewTransactionList'' ''DialogCodeHook'' None
         [(PyStr ''CustomerIdentifier'', PyStr ''CUS03''), (PyStr ''AccountIdentifier'', PyStr ''ACC9'')]"
      "PyStr ''CUS03''" "PyStr ''ACC9''" bank]
  by (simp add: example_defs)

text \<open>
  The claim as first stated fails: with an unknown customer identifier and no account
  identifier the handler elicits AccountIdentifier and never queries the customer table.
\<close>

theorem invalid_customer_skipped_for_absent_account:
  "fst (validate_customer_identifier bank (PyStr ''NOPE'')) = Inr False
   \<and> elicited (fst (lambda_handler_TL bank
        (turn ''ACMEBankBot'' ''ViewTransactionList'' ''DialogCodeHook'' None
           [(PyStr ''CustomerIdentifier'', PyStr ''NOPE''), (PyStr ''AccountIdentifier'', PyNone)]))) =
       Some (PyStr ''AccountIdentifier'', None)
   \<and> snd (lambda_handler_TL bank
        (turn ''ACMEBankBot'' ''ViewTransactionList'' ''DialogCodeHook'' None
           [(PyStr ''CustomerIdentifier'', PyStr ''NOPE''), (PyStr ''AccountIdentifier'', PyNone)])) = []"
  by (simp add: example_defs handler_defs elicited_def)

section \<open>Validation and the invocation phase\<close>

lemma get_transaction_summary_joined:
  assumes "dynamodb_resource ''ACMEAccountTransaction'' (Key_eq ''AccountIdentifier'' account_identifier) = Inr r"
    and "Count r = int (length (Items r))"
    and "list_all (has_attributes [''TransactionIdentifier'', ''Amount'', ''Date'', ''Type'']) (Items r)"
    and "Items r \<noteq> []"
  shows "fst (get_transaction_summary dynamodb_resource account_identifier) =
    Inr (join_with '', '' (map transaction_sentence (Items r)) @ closing_sentence)"
proof -
  have "0 < length (Items r)" using assms(4) by simp
  from transaction_loop_join[OF this assms(2) assms(3), of "[]"] assms(1,2,4)
  show ?thesis
    by (simp add: get_transaction_summary_def query_def)
qed

lemma bank_summary_ACC1:
  "fst (get_transaction_summary bank (PyStr ''ACC1'')) =
     Inr (''Transaction #T1: outbound transfer of '' @ pound
          @ ''20 on 2024-01-01. Is there anything else I can help you with?'')"
  using get_transaction_summary_joined [of bank "PyStr ''ACC1''"
      "\<lparr>Count = 1, Items =
         [[(''AccountIdentifier'', ''ACC1''), (''TransactionIdentifier'', ''T1''),
           (''Type'', ''TFR''), (''Amount'', ''20''), (''Date'', ''2024-01-01'')]]\<rparr>"]
  by (simp add: bank_defs has_attributes_def transaction_sentence_def attribute_text_def
      transaction_type_description_def closing_sentence_def)

lemma bank_overview_NOPE:
  "fst (get_account_overview bank (PyStr ''NOPE'')) =
     Inr ''I could not find any accounts for you on our systems. Is there anything else I can help you with?''"
  by (simp add: bank_defs get_account_overview_def)

text \<open>
  Claim C3. The account overview and the transaction list handlers validate only when
  \<open>invocationSource = 'DialogCodeHook'\<close>: in any other phase the turn makes exactly
  one store query, the fetch of the records, never a query of the customer table or the
  account-pair lookup, and it returns the \<open>Close\<close> response with the formatted text
  (or the exception of the fetch), whatever the slot values, also when they would fail
  validation.
\<close>

theorem fulfillment_skips_validation:
  "(bot_name ev = ''ACMEBankBot'' \<and> currentIntent_name ev = ''AccountOverview'' \<and>
    invocationSource ev \<noteq> ''DialogCodeHook'' \<and>
    map_of (currentIntent_slots ev) (PyStr ''CustomerIdentifier'') = Some c \<longrightarrow>
      lambda_handler_AO db ev =
        (map_sum id (close_fulfilled (sessionAttributes ev)) (fst (get_account_overview db c)),
         [Query ''ACMEBankAccount'' (Key_eq ''CustomerIdentifier'' c)]))
   \<and>
   (bot_name ev = ''ACMEBankBot'' \<and> currentIntent_name ev = ''ViewTransactionList'' \<and>
    invocationSource ev \<noteq> ''DialogCodeHook'' \<and>
    map_of (currentIntent_slots ev) (PyStr ''CustomerIdentifier'') = Some c \<and>
    map_of (currentIntent_slots ev) (PyStr ''AccountIdentifier'') = Some a \<longrightarrow>
      lambda_handler_TL db ev =
        (map_sum id (close_fulfilled (sessionAttributes ev)) (fst (get_transaction_summary db a)),
         [Query ''ACMEAccountTransaction'' (Key_eq ''AccountIdentifier'' a)]))"
  using AO_fulfillment[of ev c db] TL_fulfillment[of ev c a db]
  by blast

theorem fulfillment_skips_validation_witness:
  "fst (validate_customer_identifier bank (PyStr ''NOPE'')) = Inr False
   \<and> fst (validate_account_identifier bank (PyStr ''NOPE'') (PyStr ''ACC1'')) = Inr False
   \<and> lambda_handler_AO bank
      (turn ''ACMEBankBot'' ''AccountOverview'' ''FulfillmentCodeHook'' None
         [(PyStr ''CustomerIdentifier'', PyStr ''NOPE'')]) =
     (Inr \<lparr>response_sessionAttributes = None,
           dialogAction = Close ''Fulfilled'' \<lparr>contentType = ''PlainText'',
             content = ''I could not find any accounts for you on our systems. Is there anything else I can help you with?''\<rparr>\<rparr>,
      [Query ''ACMEBankAccount'' (Key_eq ''CustomerIdentifier'' (PyStr ''NOPE''))])
   \<and> lambda_handler_TL bank
      (turn ''ACMEBankBot'' ''ViewTransactionList'' ''FulfillmentCodeHook'' None
         [(PyStr ''CustomerIdentifier'', PyStr ''NOPE''), (PyStr ''AccountIdentifier'', PyStr ''ACC1'')]) =
     (Inr \<lparr>response_sessionAttributes = None,
           dialogAction = Close ''Fulfilled'' \<lparr>contentType = ''PlainText'',
             content = ''Transaction #T1: outbound transfer of '' @ pound
                @ ''20 on 2024-01-01. Is there anything else I can help you with?''\<rparr>\<rparr>,
      [Query ''ACMEAccountTransaction'' (Key_eq ''AccountIdentifier'' (PyStr ''ACC1''))])"
  using
    fulfillment_skips_validation [of
      "turn ''ACMEBankBot'' ''AccountOverview'' ''FulfillmentCodeHook'' None
         [(PyStr ''CustomerIdentifier'', PyStr ''NOPE'')]"
      "PyStr ''NOPE''" bank "PyStr ''ACC1''"]
    fulfillment_skips_validation [of
      "turn ''ACMEBankBot'' ''ViewTransactionList'' ''FulfillmentCodeHook'' None
         [(PyStr ''CustomerIdentifier'', PyStr ''NOPE''), (PyStr ''AccountIdentifier'', PyStr ''ACC1'')]"
      "PyStr ''NOPE''" bank "PyStr ''ACC1''"]
    bank_summary_ACC1 bank_overview_NOPE
  by (simp add: turn_def close_fulfilled_def validate_customer_identifier_def
      validate_account_identifier_def bank_def memory_db_def query_def)

section \<open>The validator of the customer identifier\<close>

text \<open>
  Claim C6, as amended. The validator of the two handlers judges a value valid exactly when
  the query on the customer table returns a response with a non-zero \<open>Count\<close>; it
  makes that one query, and an exception of the query is passed on. Its outcome is a bare
  truth value: it carries no message, and neither does the response of a handler to an
  invalid customer identifier.
\<close>

theorem customer_identifier_validity:
  "(db ''ACMEBankCustomer'' (Key_eq ''CustomerIdentifier'' c) = Inr r \<longrightarrow>
      validate_customer_identifier db c =
        (Inr (Count r \<noteq> 0), [Query ''ACMEBankCustomer'' (Key_eq ''CustomerIdentifier'' c)]))
   \<and>
   (db ''ACMEBankCustomer'' (Key_eq ''CustomerIdentifier'' c) = Inl e \<longrightarrow>
      validate_customer_identifier db c =
        (Inl e, [Query ''ACMEBankCustomer'' (Key_eq ''CustomerIdentifier'' c)]))
   \<and>
   (bot_name ev = ''ACMEBankBot'' \<and> currentIntent_name ev = ''AccountOverview'' \<and>
    invocationSource ev = ''DialogCodeHook'' \<and>
    map_of (currentIntent_slots ev) (PyStr ''CustomerIdentifier'') = Some c \<and> c \<noteq> PyNone \<and>
    fst (validate_customer_identifier db c) = Inr False \<longrightarrow>
      response_message (fst (lambda_handler_AO db ev)) = None)
   \<and>
   (bot_name ev = ''ACMEBankBot'' \<and> currentIntent_name ev = ''ViewTransactionList'' \<and>
    invocationSource ev = ''DialogCodeHook'' \<and>
    map_of (currentIntent_slots ev) (PyStr ''CustomerIdentifier'') = Some c \<and> c \<noteq> PyNone \<and>
    map_of (currentIntent_slots ev) (PyStr ''AccountIdentifier'') = Some a \<and> a \<noteq> PyNone \<and>
    fst (validate_customer_identifier db c) = Inr False \<longrightarrow>
      response_message (fst (lambda_handler_TL db ev)) = None)"
proof (intro conjI impI)
  assume "db ''ACMEBankCustomer'' (Key_eq ''CustomerIdentifier'' c) = Inr r"
  then show "validate_customer_identifier db c =
        (Inr (Count r \<noteq> 0), [Query ''ACMEBankCustomer'' (Key_eq ''CustomerIdentifier'' c)])"
    by (simp add: validate_customer_identifier_def query_def)
next
  assume "db ''ACMEBankCustomer'' (Key_eq ''CustomerIdentifier'' c) = Inl e"
  then show "validate_customer_identifier db c =
        (Inl e, [Query ''ACMEBankCustomer'' (Key_eq ''CustomerIdentifier'' c)])"
    by (simp add: validate_customer_identifier_def query_def)
next
  assume "bot_name ev = ''ACMEBankBot'' \<and> currentIntent_name ev = ''AccountOverview'' \<and>
    invocationSource ev = ''DialogCodeHook'' \<and>
    map_of (currentIntent_slots ev) (PyStr ''CustomerIdentifier'') = Some c \<and> c \<noteq> PyNone \<and>
    fst (validate_customer_identifier db c) = Inr False"
  then show "response_message (fst (lambda_handler_AO db ev)) = None"
    by (simp add: AO_invalid_customer response_message_def)
next
  assume "bot_name ev = ''ACMEBankBot'' \<and> currentIntent_name ev = ''ViewTransactionList'' \<and>
    invocationSource ev = ''DialogCodeHook'' \<and>
    map_of (currentIntent_slots ev) (PyStr ''CustomerIdentifier'') = Some c \<and> c \<noteq> PyNone \<and>
    map_of (currentIntent_slots ev) (PyStr ''AccountIdentifier'') = Some a \<and> a \<noteq> PyNone \<and>
    fst (validate_customer_identifier db c) = Inr False"
  then show "response_message (fst (lambda_handler_TL db ev)) = None"
    by (simp add: TL_invalid_customer response_message_def)
qed

theorem customer_identifier_validity_witness:
  "validate_customer_identifier bank (PyStr ''CUS03'') =
     (Inr True, [Query ''ACMEBankCustomer'' (Key_eq ''CustomerIdentifier'' (PyStr ''CUS03''))])
   \<and> validate_customer_identifier bank (PyStr ''NOPE'') =
     (Inr False, [Query ''ACMEBankCustomer'' (Key_eq ''CustomerIdentifier'' (PyStr ''NOPE''))])
   \<and> validate_customer_identifier (\<lambda>table cond. Inl (ClientError ''ProvisionedThroughputExceededException''))
        (PyStr ''CUS03'') =
     (Inl (ClientError ''ProvisionedThroughputExceededException''),
      [Query ''ACMEBankCustomer'' (Key_eq ''CustomerIdentifier'' (PyStr ''CUS03''))])
   \<and> response_message (fst (lambda_handler_AO bank
        (turn ''ACMEBankBot'' ''AccountOverview'' ''DialogCodeHook'' None
           [(PyStr ''CustomerIdentifier'', PyStr ''NOPE'')]))) = None
   \<and> response_message (fst (lambda_handler_TL bank
        (turn ''ACMEBankBot'' ''ViewTransactionList'' ''DialogCodeHook'' None
           [(PyStr ''CustomerIdentifier'', PyStr ''NOPE''),
            (PyStr ''AccountIdentifier'', PyStr ''ACC1'')]))) = None"
  using
    customer_identifier_validity [of bank "PyStr ''CUS03''"
      "\<lparr>Count = 1, Items = [[(''CustomerIdentifier'', ''CUS03'')]]\<rparr>"]
    customer_identifier_validity [of bank "PyStr ''NOPE''" "\<lparr>Count = 0, Items = []\<rparr>" _
      "turn ''ACMEBankBot'' ''AccountOverview'' ''DialogCodeHook'' None
           [(PyStr ''CustomerIdentifier'', PyStr ''NOPE'')]"]
    customer_identifier_validity [of bank "PyStr ''NOPE''" "\<lparr>Count = 0, Items = []\<rparr>" _
      "turn ''ACMEBankBot'' ''ViewTransactionList'' ''DialogCodeHook'' None
           [(PyStr ''CustomerIdentifier'', PyStr ''NOPE''),
            (PyStr ''AccountIdentifier'', PyStr ''ACC1'')]" "PyStr ''ACC1''"]
    customer_identifier_validity [of
      "\<lambda>table cond. Inl (ClientError ''ProvisionedThroughputExceededException'')"
      "PyStr ''CUS03''" _ "ClientError ''ProvisionedThroughputExceededException''"]
  by (simp add: bank_def memory_db_def turn_def)

text \<open>
  The claim as first stated fails: the outcome for an unknown customer identifier is the
  truth value \<open>False\<close> alone, and the response of the transaction list handler to that
  turn carries no message.
\<close>

theorem invalid_customer_outcome_has_no_message:
  "validate_customer_identifier bank (PyStr ''NOPE'') =
     (Inr False, [Query ''ACMEBankCustomer'' (Key_eq ''CustomerIdentifier'' (PyStr ''NOPE''))])
   \<and> response_message (fst (lambda_handler_TL bank
        (turn ''ACMEBankBot'' ''ViewTransactionList'' ''DialogCodeHook'' None
           [(PyStr ''CustomerIdentifier'', PyStr ''NOPE''),
            (PyStr ''AccountIdentifier'', PyStr ''ACC1'')]))) = None
   \<and> fst (lambda_handler_TL bank
        (turn ''ACMEBankBot'' ''ViewTransactionList'' ''DialogCodeHook'' None
           [(PyStr ''CustomerIdentifier'', PyStr ''NOPE''),
            (PyStr ''AccountIdentifier'', PyStr ''ACC1'')])) =
       Inr \<lparr>response_sessionAttributes = None,
            dialogAction = Delegate [(PyStr ''CustomerIdentifier'', PyNone),
                                     (PyStr ''AccountIdentifier'', PyStr ''ACC1'')]\<rparr>"
  by (simp add: example_defs handler_defs response_message_def)

section \<open>What the transaction list answer depends on\<close>

text \<open>
  Claim C10. Two fulfillment turns of the transaction list handler that pass the identity
  checks, carry both slot keys and agree on the value of AccountIdentifier give the same
  \<open>Close\<close> message content, and indeed the same dialog action, against the same store,
  whatever their CustomerIdentifier, other slots and session attributes: the content is
  the text of \<open>get_transaction_summary\<close> for that account.
\<close>

theorem transaction_list_content_depends_on_account_only:
  assumes "bot_name ev1 = ''ACMEBankBot''" and "currentIntent_name ev1 = ''ViewTransactionList''"
    and "bot_name ev2 = ''ACMEBankBot''" and "currentIntent_name ev2 = ''ViewTransactionList''"
    and "invocationSource ev1 \<noteq> ''DialogCodeHook''" and "invocationSource ev2 \<noteq> ''DialogCodeHook''"
    and "map_of (currentIntent_slots ev1) (PyStr ''CustomerIdentifier'') = Some c1"
    and "map_of (currentIntent_slots ev2) (PyStr ''CustomerIdentifier'') = Some c2"
    and "map_of (currentIntent_slots ev1) (PyStr ''AccountIdentifier'') = Some a"
    and "map_of (currentIntent_slots ev2) (PyStr ''AccountIdentifier'') = Some a"
  shows "close_content (fst (lambda_handler_TL db ev1)) = close_content (fst (lambda_handler_TL db ev2))
    \<and> close_content (fst (lambda_handler_TL db ev1)) =
        (case fst (get_transaction_summary db a) of Inl e \<Rightarrow> None | Inr text' \<Rightarrow> Some text')
    \<and> map_sum id dialogAction (fst (lambda_handler_TL db ev1)) =
        map_sum id dialogAction (fst (lambda_handler_TL db ev2))"
proof -
  have 1: "fst (lambda_handler_TL db ev1) =
      map_sum id (close_fulfilled (sessionAttributes ev1)) (fst (get_transaction_summary db a))"
    using TL_fulfillment[OF assms(1,2,5,7,9), of db] by simp
  have 2: "fst (lambda_handler_TL db ev2) =
      map_sum id (close_fulfilled (sessionAttributes ev2)) (fst (get_transaction_summary db a))"
    using TL_fulfillment[OF assms(3,4,6,8,10), of db] by simp
  show ?thesis
    unfolding 1 2
    by (cases "fst (get_transaction_summary db a)")
      (simp_all add: close_content_def close_fulfilled_def)
qed

theorem transaction_list_content_depends_on_account_only_witness:
  "close_content (fst (lambda_handler_TL bank
      (turn ''ACMEBankBot'' ''ViewTransactionList'' ''FulfillmentCodeHook'' None
         [(PyStr ''CustomerIdentifier'', PyStr ''CUS03''), (PyStr ''AccountIdentifier'', PyStr ''ACC1'')]))) =
   close_content (fst (lambda_handler_TL bank
      (turn ''ACMEBankBot'' ''ViewTransactionList'' ''FulfillmentCodeHook'' (Some [(''channel'', ''web'')])
         [(PyStr ''Branch'', PyStr ''north''), (PyStr ''CustomerIdentifier'', PyStr ''NOPE''),
          (PyStr ''AccountIdentifier'', PyStr ''ACC1'')])))
   \<and> close_content (fst (lambda_handler_TL bank
      (turn ''ACMEBankBot'' ''ViewTransactionList'' ''FulfillmentCodeHook'' None
         [(PyStr ''CustomerIdentifier'', PyStr ''CUS03''), (PyStr ''AccountIdentifier'', PyStr ''ACC1'')]))) =
     Some (''Transaction #T1: outbound transfer of '' @ pound
           @ ''20 on 2024-01-01. Is there anything else I can help you with?'')"
proof -
  let ?e1 = "turn ''ACMEBankBot'' ''ViewTransactionList'' ''FulfillmentCodeHook'' None
         [(PyStr ''CustomerIdentifier'', PyStr ''CUS03''), (PyStr ''AccountIdentifier'', PyStr ''ACC1'')]"
  let ?e2 = "turn ''ACMEBankBot'' ''ViewTransactionList'' ''FulfillmentCodeHook'' (Some [(''channel'', ''web'')])
         [(PyStr ''Branch'', PyStr ''north''), (PyStr ''CustomerIdentifier'', PyStr ''NOPE''),
          (PyStr ''AccountIdentifier'', PyStr ''ACC1'')]"
  have both: "close_content (fst (lambda_handler_TL bank ?e1)) = close_content (fst (lambda_handler_TL bank ?e2))
    \<and> close_content (fst (lambda_handler_TL bank ?e1)) =
        (case fst (get_transaction_summary bank (PyStr ''ACC1'')) of Inl e \<Rightarrow> None | Inr text' \<Rightarrow> Some text')"
    using transaction_list_content_depends_on_account_only
      [of ?e1 ?e2 "PyStr ''CUS03''" "PyStr ''NOPE''" "PyStr ''ACC1''" bank,
       unfolded turn_def, simplified]
    unfolding turn_def by blast
  have c: "close_content (fst (lambda_handler_TL bank ?e1)) =
     Some (''Transaction #T1: outbound transfer of '' @ pound
           @ ''20 on 2024-01-01. Is there anything else I can help you with?'')"
    using both[THEN conjunct2] by (simp only: bank_summary_ACC1 sum.case)
  show ?thesis using both[THEN conjunct1] c by (rule conjI)
qed

section \<open>Identity checks\<close>

text \<open>
  Claim C4. A turn whose bot name or whose intent name is not the one the handler is
  written for ends in an exception and no dialog action, before any slot is read and
  without a store query; a bot name that differs is enough, whatever the intent name.
\<close>

theorem identity_mismatch_raises:
  "(bot_name ev \<noteq> ''ACMEBankBot'' \<longrightarrow>
      lambda_handler_AO db ev =
        (Inl (Exception ''This function can only be used with the ACMEBankBot''), []) \<and>
      lambda_handler_TL db ev =
        (Inl (Exception ''This function can only be used with the ACMEBankBot''), []))
   \<and>
   (bot_name ev = ''ACMEBankBot'' \<and> currentIntent_name ev \<noteq> ''AccountOverview'' \<longrightarrow>
      lambda_handler_AO db ev =
        (Inl (Exception ''This function can only be used with the AccountOverview intent''), []))
   \<and>
   (bot_name ev = ''ACMEBankBot'' \<and> currentIntent_name ev \<noteq> ''ViewTransactionList'' \<longrightarrow>
      lambda_handler_TL db ev =
        (Inl (Exception ''This function can only be used with the ViewTransactionList intent''), []))"
  by (simp add: lambda_handler_AO_def lambda_handler_TL_def)

theorem identity_mismatch_raises_witness:
  "lambda_handler_AO bank
      (turn ''OtherBot'' ''AccountOverview'' ''DialogCodeHook'' None
         [(PyStr ''CustomerIdentifier'', PyStr ''CUS03'')]) =
     (Inl (Exception ''This function can only be used with the ACMEBankBot''), [])
   \<and> lambda_handler_TL bank
      (turn ''OtherBot'' ''ViewTransactionList'' ''FulfillmentCodeHook'' None
         [(PyStr ''CustomerIdentifier'', PyStr ''CUS03''), (PyStr ''AccountIdentifier'', PyStr ''ACC1'')]) =
     (Inl (Exception ''This function can only be used with the ACMEBankBot''), [])
   \<and> lambda_handler_AO bank
      (turn ''ACMEBankBot'' ''ViewTransactionList'' ''DialogCodeHook'' None
         [(PyStr ''CustomerIdentifier'', PyStr ''CUS03'')]) =
     (Inl (Exception ''This function can only be used with the AccountOverview intent''), [])
   \<and> lambda_handler_TL bank
      (turn ''ACMEBankBot'' ''AccountOverview'' ''FulfillmentCodeHook'' None
         [(PyStr ''CustomerIdentifier'', PyStr ''CUS03''), (PyStr ''AccountIdentifier'', PyStr ''ACC1'')]) =
     (Inl (Exception ''This function can only be used with the ViewTransactionList intent''), [])"
  using
    identity_mismatch_raises [of
      "turn ''OtherBot'' ''AccountOverview'' ''DialogCodeHook'' None
         [(PyStr ''CustomerIdentifier'', PyStr ''CUS03'')]" bank]
    identity_mismatch_raises [of
      "turn ''OtherBot'' ''ViewTransactionList'' ''FulfillmentCodeHook'' None
         [(PyStr ''CustomerIdentifier'', PyStr ''CUS03''), (PyStr ''AccountIdentifier'', PyStr ''ACC1'')]" bank]
    identity_mismatch_raises [of
      "turn ''ACMEBankBot'' ''ViewTransactionList'' ''DialogCodeHook'' None
         [(PyStr ''CustomerIdentifier'', PyStr ''CUS03'')]" bank]
    identity_mismatch_raises [of
      "turn ''ACMEBankBot'' ''AccountOverview'' ''FulfillmentCodeHook'' None
         [(PyStr ''CustomerIdentifier'', PyStr ''CUS03''), (PyStr ''AccountIdentifier'', PyStr ''ACC1'')]" bank]
  by (simp add: turn_def)

section \<open>Session attributes\<close>

lemma AO_session_attributes:
  "fst (lambda_handler_AO db ev) = Inr r \<Longrightarrow> response_sessionAttributes r = sessionAttributes ev"
  by (auto simp: handler_defs split: if_splits option.splits prod.splits sum.splits)

lemma TL_session_attributes:
  "fst (lambda_handler_TL db ev) = Inr r \<Longrightarrow> response_sessionAttributes r = sessionAttributes ev"
  by (auto simp: handler_defs split: if_splits option.splits prod.splits sum.splits)

section \<open>The validation function does not load\<close>

lemma source_VF_brackets:
  "brackets_left_open source_VF = 2"
  by (simp add: brackets_left_open_def source_VF_def)

lemma source_VF_open_lines:
  "scan_line Code 0 (source_VF ! 80) = 1 \<and> scan_line Code 0 (source_VF ! 89) = 1"
  by (simp add: source_VF_def)

text \<open>
  Two things the text of the file says, whether or not it loads. The name
  \<open>output_session_attributes\<close> occurs on line 102 alone, where it is read as the first
  argument of \<open>delegate\<close>: no line assigns it. And the only tests for \<open>None\<close> are
  on the message content (line 33) and the session attributes (line 87): the customer
  identifier reaches \<open>len\<close> on line 48 untested.
\<close>

lemma source_VF_output_session_attributes:
  "filter (occurs ''output_session_attributes'') source_VF =
     [''    return delegate(output_session_attributes, intent_slots)'']
   \<and> source_VF ! 101 = ''    return delegate(output_session_attributes, intent_slots)''"
  by (simp add: source_VF_def)

lemma source_VF_None_tests:
  "filter (occurs ''is None'') source_VF =
     [''    if message_content is None:'', ''    if session_attributes is None:'']
   \<and> source_VF ! 32 = ''    if message_content is None:''
   \<and> source_VF ! 86 = ''    if session_attributes is None:''
   \<and> source_VF ! 47 = ''    if len(customer_identifier) == 0:''"
  by (simp add: source_VF_def)

lemma lambda_handler_VF_raises:
  "lambda_handler_VF handler ev = Inl SyntaxError"
  by (simp add: lambda_handler_VF_def source_VF_brackets)

text \<open>
  Claim C5 says that every response carries the session attributes of the request and
  that the \<open>Delegate\<close> branch returns them. A turn with the valid customer identifier
  CUS01, which is the turn that would reach the \<open>Delegate\<close> branch of the validation
  function, returns no response at all: the invocation ends in \<open>SyntaxError\<close>, whatever
  the module's \<open>lambda_handler\<close> would do.
\<close>

theorem validation_function_valid_customer_raises:
  "lambda_handler_VF handler
      (turn ''ACMEBankBot'' ''AccountOverviewIntent'' ''DialogCodeHook'' (Some [(''channel'', ''web'')])
         [(PyStr ''CustomerIdentifier'', PyStr ''CUS01'')]) =
     Inl SyntaxError"
  by (simp add: lambda_handler_VF_def source_VF_brackets)

text \<open>
  Claim C9 says that an absent required slot is elicited without a rejection message and
  the slots are returned untouched. The two handlers do so (\<open>AO_absent_customer\<close>,
  \<open>TL_absent_customer\<close>, \<open>TL_absent_account\<close>). A turn of the validation function
  whose CustomerIdentifier is \<open>None\<close> returns no response: the invocation ends in
  \<open>SyntaxError\<close>.
\<close>

theorem validation_function_absent_slot_raises:
  "lambda_handler_VF handler
      (turn ''ACMEBankBot'' ''AccountOverviewIntent'' ''DialogCodeHook'' None
         [(PyStr ''CustomerIdentifier'', PyNone)]) =
     Inl SyntaxError"
  by (simp add: lambda_handler_VF_def source_VF_brackets)

end
